theory Spec2Isabelle
  imports Main
begin

section \<open>Data model of the asset controller\<close>

text \<open>
  The development embeds \<^verbatim>\<open>AssetController.uploadFile\<close> and
  \<^verbatim>\<open>AssetController.deleteAsset\<close> of
  \<^verbatim>\<open>server/apps/immich/src/api-v1/asset/asset.controller.ts\<close>.
  The controller only sequences calls on its injected collaborators (the asset service,
  the background task service and the bull queue of uploaded assets); it never looks
  inside an asset except for its \<^verbatim>\<open>id\<close>. Asset identifiers are opaque values
  allocated by the store and are modelled as natural numbers; user identifiers, paths
  and checksums are strings.
\<close>

type_synonym asset_id = nat

text \<open>\<^verbatim>\<open>AuthUserDto\<close>: the authenticated caller; only \<^verbatim>\<open>id\<close> is read.\<close>

record AuthUserDto =
  user_id :: string
  email :: string

text \<open>\<^verbatim>\<open>Express.Multer.File\<close>: the uploaded file as stored under its transient path.\<close>

record MulterFile =
  path :: string
  mimetype :: string
  originalname :: string

text \<open>
  \<^verbatim>\<open>CreateAssetDto\<close> is passed through to the asset service unread. Its declaration
  is not among the sources; the two optional fields are the ones the specification
  lists for the upload entry point (device identifier, capture timestamp).
\<close>

record CreateAssetDto =
  deviceId :: "string option"
  createdAt :: "string option"

text \<open>
  An asset row (\<^verbatim>\<open>AssetEntity\<close>, and its projection \<^verbatim>\<open>AssetResponseDto\<close> which
  the controller treats the same way): identifier, owner, content checksum, storage
  path and MIME type.
\<close>

record AssetEntity =
  asset_id :: asset_id
  userId :: string
  checksum :: string
  originalPath :: string
  mimeType :: string

type_synonym AssetResponseDto = AssetEntity

text \<open>
  Exceptions that can travel through the controller. \<^verbatim>\<open>QueryFailedError\<close> carries the
  name of the violated constraint when there is one; \<^verbatim>\<open>BadRequestException\<close> carries
  its message and, for the second constructor argument \<^verbatim>\<open>`${err}`\<close>, the error it
  describes.
\<close>

datatype exn =
    QueryFailedError "string option"
  | Error string
  | TypeError string
  | BadRequestException string "exn option"

text \<open>
  \<^verbatim>\<open>AssetFileUploadResponseDto(id)\<close> together with the HTTP status of the response:
  201 is the default for a POST handler, \<^verbatim>\<open>res.status(200)\<close> overrides it.
\<close>

record AssetFileUploadResponseDto =
  statusCode :: nat
  response_id :: asset_id

text \<open>
  The controller reports an already existing asset through the status code
  (``normal POST is 201. we use 200 to indicate the asset already exists'').
\<close>

definition isDuplicate :: "AssetFileUploadResponseDto \<Rightarrow> bool" where
  "isDuplicate r = (statusCode r = 200)"

text \<open>
  A job of the queue \<^verbatim>\<open>assetUploadedQueue\<close>: the processor name, the payload
  \<^verbatim>\<open>{ asset, fileName }\<close> and the option \<^verbatim>\<open>{ jobId }\<close>.
\<close>

record UploadedJob =
  job_name :: string
  job_asset :: AssetEntity
  fileName :: string
  jobId :: asset_id

text \<open>
  What \<^verbatim>\<open>deleteFileOnDisk\<close> is given: real assets (delete path) or the object
  \<^verbatim>\<open>{ originalPath: file.path } as any\<close> that the upload path builds to ``simulate
  asset to make use of delete queue''.
\<close>

datatype cleanup_item = OfAsset AssetResponseDto | Simulated string

text \<open>
  Modelled from the spec: the declaration of \<^verbatim>\<open>DeleteAssetStatusEnum\<close> is missing
  from the sources, and the controller names only its member \<^verbatim>\<open>SUCCESS\<close>. The members
  are the per-ID statuses Success, NotFound and Forbidden of the delete entry point.
\<close>

datatype DeleteAssetStatusEnum = SUCCESS | NOT_FOUND | FORBIDDEN

text \<open>\<^verbatim>\<open>DeleteAssetDto\<close> and \<^verbatim>\<open>DeleteAssetResponseDto\<close>.\<close>

record DeleteAssetDto =
  ids :: "asset_id list"

record DeleteAssetResponseDto =
  res_id :: asset_id
  status :: DeleteAssetStatusEnum

text \<open>The asset table as the asset service sees it: the rows and the next free identifier.\<close>

record repository =
  rows :: "AssetEntity list"
  nextId :: asset_id

text \<open>Calls made on the asset table by the upload path, in order (instrumentation).\<close>

datatype registry_call =
    CreateUserAsset string string string
  | GetAssetByChecksum string string

text \<open>
  Everything the controller can change: the asset table (through the asset service), the
  bull queue of uploaded assets, the background task queue that \<^verbatim>\<open>deleteFileOnDisk\<close>
  feeds, and what \<^verbatim>\<open>Logger.error\<close> received.
\<close>

record world =
  assetRepository :: repository
  assetUploadedQueue :: "UploadedJob list"
  backgroundTaskQueue :: "cleanup_item list list"
  errorLog :: "exn list"
  registryCalls :: "registry_call list"

text \<open>
  The collaborators injected into the controller. Their code is not among the sources,
  so the controller is embedded over arbitrary implementations: each operation returns
  either the exception it raised (\<open>Inl\<close>) or its value, and the operations that write
  return the new state as well. \<^verbatim>\<open>createUserAsset\<close> may resolve to a falsy value
  (\<open>None\<close>), and so may \<^verbatim>\<open>getAssetById\<close> and \<^verbatim>\<open>getAssetByChecksum\<close>.
  \<^verbatim>\<open>assetUploadedProcessorName\<close> is a constant imported from the job library.
\<close>

record deps =
  calculateChecksum :: "string \<Rightarrow> exn + string"
  createUserAsset :: "AuthUserDto \<Rightarrow> CreateAssetDto \<Rightarrow> string \<Rightarrow> string \<Rightarrow> string
                        \<Rightarrow> repository \<Rightarrow> (exn + AssetEntity option) \<times> repository"
  getAssetByChecksum :: "string \<Rightarrow> string \<Rightarrow> repository \<Rightarrow> exn + AssetEntity option"
  getAssetById :: "AuthUserDto \<Rightarrow> asset_id \<Rightarrow> repository \<Rightarrow> exn + AssetResponseDto option"
  deleteAssetById :: "AuthUserDto \<Rightarrow> DeleteAssetDto \<Rightarrow> repository
                        \<Rightarrow> (exn + DeleteAssetResponseDto list) \<times> repository"
  add :: "UploadedJob \<Rightarrow> UploadedJob list \<Rightarrow> exn + UploadedJob list"
  assetUploadedProcessorName :: string

section \<open>The controller\<close>

text \<open>
  Modelled from the spec: \<^verbatim>\<open>BackgroundTaskService.deleteFileOnDisk\<close> is missing
  from the sources. It hands the given assets to the Cleanup/Reaper, off the request
  path: the call is recorded, with its argument, as one entry at the end of the
  background task queue (the ``delete queue'' of the source comments), and the files
  are removed later. The call is taken not to fail.
\<close>

definition deleteFileOnDisk :: "cleanup_item list \<Rightarrow> world \<Rightarrow> world" where
  "deleteFileOnDisk assets w = w\<lparr>backgroundTaskQueue := backgroundTaskQueue w @ [assets]\<rparr>"

text \<open>
  The test of the catch block:
  \<^verbatim>\<open>err instanceof QueryFailedError && (err as any).constraint === 'UQ_userid_checksum'\<close>.
\<close>

fun is_checksum_conflict :: "exn \<Rightarrow> bool" where
  "is_checksum_conflict (QueryFailedError c) = (c = Some ''UQ_userid_checksum'')"
| "is_checksum_conflict _ = False"

text \<open>
  The catch block of \<^verbatim>\<open>uploadFile\<close> (lines 108 to 123), entered with the exception
  \<open>err\<close>: hand the transient path to the delete queue; on the checksum conflict read
  the existing asset back and answer with status 200; otherwise log and raise
  \<^verbatim>\<open>BadRequestException\<close>. An exception of \<^verbatim>\<open>getAssetByChecksum\<close> leaves the
  handler as it is, and \<^verbatim>\<open>existedAsset.id\<close> on a missing asset is a
  \<^verbatim>\<open>TypeError\<close>.
\<close>

definition uploadFile_catch ::
  "deps \<Rightarrow> AuthUserDto \<Rightarrow> MulterFile \<Rightarrow> string \<Rightarrow> exn \<Rightarrow> world
     \<Rightarrow> (exn + AssetFileUploadResponseDto) \<times> world" where
  "uploadFile_catch d authUser file checksum' err w =
     (let w1 = deleteFileOnDisk [Simulated (path file)] w in
      if is_checksum_conflict err then
        (let w2 = w1\<lparr>registryCalls :=
                      registryCalls w1 @ [GetAssetByChecksum (user_id authUser) checksum']\<rparr> in
         case getAssetByChecksum d (user_id authUser) checksum' (assetRepository w2) of
           Inl e \<Rightarrow> (Inl e, w2)
         | Inr None \<Rightarrow> (Inl (TypeError ''existedAsset.id''), w2)
         | Inr (Some existedAsset) \<Rightarrow>
             (Inr \<lparr>statusCode = 200, response_id = asset_id existedAsset\<rparr>, w2))
      else
        (Inl (BadRequestException ''Error uploading file'' (Some err)),
         w1\<lparr>errorLog := errorLog w1 @ [err]\<rparr>))"

text \<open>
  \<^verbatim>\<open>uploadFile\<close> (lines 75 to 124). The checksum is computed before the
  \<^verbatim>\<open>try\<close>, so its exception leaves the handler directly. Inside the
  \<^verbatim>\<open>try\<close>: create the asset; on a falsy result hand the path to the delete queue
  and throw (into the same catch block); otherwise add the job with
  \<^verbatim>\<open>jobId: savedAsset.id\<close> and answer with the new identifier.
\<close>

definition uploadFile ::
  "deps \<Rightarrow> AuthUserDto \<Rightarrow> MulterFile \<Rightarrow> CreateAssetDto \<Rightarrow> world
     \<Rightarrow> (exn + AssetFileUploadResponseDto) \<times> world" where
  "uploadFile d authUser file assetInfo w =
     (case calculateChecksum d (path file) of
        Inl e \<Rightarrow> (Inl e, w)
      | Inr checksum' \<Rightarrow>
          (let w0 = w\<lparr>registryCalls := registryCalls w @
                        [CreateUserAsset (user_id authUser) checksum' (path file)]\<rparr> in
           case createUserAsset d authUser assetInfo (path file) (mimetype file) checksum'
                  (assetRepository w0) of
             (Inl err, repo) \<Rightarrow>
               uploadFile_catch d authUser file checksum' err (w0\<lparr>assetRepository := repo\<rparr>)
           | (Inr None, repo) \<Rightarrow>
               uploadFile_catch d authUser file checksum'
                 (BadRequestException ''Asset not created'' None)
                 (deleteFileOnDisk [Simulated (path file)] (w0\<lparr>assetRepository := repo\<rparr>))
           | (Inr (Some savedAsset), repo) \<Rightarrow>
               (let w1 = w0\<lparr>assetRepository := repo\<rparr> in
                case add d \<lparr>job_name = assetUploadedProcessorName d,
                             job_asset = savedAsset,
                             fileName = originalname file,
                             jobId = asset_id savedAsset\<rparr>
                       (assetUploadedQueue w1) of
                  Inl err \<Rightarrow> uploadFile_catch d authUser file checksum' err w1
                | Inr q \<Rightarrow>
                    (Inr \<lparr>statusCode = 201, response_id = asset_id savedAsset\<rparr>,
                     w1\<lparr>assetUploadedQueue := q\<rparr>))))"

text \<open>
  The loop of \<^verbatim>\<open>deleteAsset\<close> (lines 232 to 238): look every identifier up and
  push the assets that were found.
\<close>

fun collectAssets ::
  "deps \<Rightarrow> AuthUserDto \<Rightarrow> asset_id list \<Rightarrow> repository \<Rightarrow> AssetResponseDto list
     \<Rightarrow> exn + AssetResponseDto list" where
  "collectAssets d authUser [] repo deleteAssetList = Inr deleteAssetList"
| "collectAssets d authUser (i # is) repo deleteAssetList =
     (case getAssetById d authUser i repo of
        Inl e \<Rightarrow> Inl e
      | Inr None \<Rightarrow> collectAssets d authUser is repo deleteAssetList
      | Inr (Some assets) \<Rightarrow> collectAssets d authUser is repo (deleteAssetList @ [assets]))"

text \<open>
  \<^verbatim>\<open>deleteAsset\<close> (lines 225 to 249). \<^verbatim>\<open>Array.prototype.filter\<close> returns a new
  array and leaves its receiver as it is; the source drops that array, which is the
  binding \<open>unused\<close> below.
\<close>

definition deleteAsset ::
  "deps \<Rightarrow> AuthUserDto \<Rightarrow> DeleteAssetDto \<Rightarrow> world
     \<Rightarrow> (exn + DeleteAssetResponseDto list) \<times> world" where
  "deleteAsset d authUser assetIds w =
     (case collectAssets d authUser (ids assetIds) (assetRepository w) [] of
        Inl e \<Rightarrow> (Inl e, w)
      | Inr deleteAssetList \<Rightarrow>
          (case deleteAssetById d authUser assetIds (assetRepository w) of
             (Inl e, repo) \<Rightarrow> (Inl e, w\<lparr>assetRepository := repo\<rparr>)
           | (Inr result, repo) \<Rightarrow>
               (let unused = map (\<lambda>res. filter (\<lambda>a. asset_id a = res_id res
                                                   \<and> status res = SUCCESS) deleteAssetList)
                                 result;
                    w1 = deleteFileOnDisk (map OfAsset deleteAssetList)
                           (w\<lparr>assetRepository := repo\<rparr>)
                in (Inr result, w1))))"

section \<open>Collaborators modelled from the specification\<close>

text \<open>
  Modelled from the spec: \<^verbatim>\<open>AssetService.calculateChecksum\<close> is missing from the
  sources. The Content Hasher produces the digest of the bytes stored under the path,
  deterministically, and fails with an I/O error if the source cannot be read. The
  digest function and the content of the disk are parameters.
\<close>

definition hasher_calculateChecksum ::
  "(string \<Rightarrow> string) \<Rightarrow> (string \<Rightarrow> string option) \<Rightarrow> string \<Rightarrow> exn + string" where
  "hasher_calculateChecksum hash disk p =
     (case disk p of None \<Rightarrow> Inl (Error ''I/O error'') | Some bytes \<Rightarrow> Inr (hash bytes))"

text \<open>
  Modelled from the spec: \<^verbatim>\<open>AssetService.createUserAsset\<close> is missing from the
  sources. The Asset Registry inserts a new row with a fresh identifier, the uniqueness
  constraint on (owner, digest) being enforced by the store; a violation is the
  \<^verbatim>\<open>QueryFailedError\<close> on \<^verbatim>\<open>UQ_userid_checksum\<close> that the controller tests for. There
  is no existence check apart from the constraint.
\<close>

definition registry_createUserAsset ::
  "AuthUserDto \<Rightarrow> CreateAssetDto \<Rightarrow> string \<Rightarrow> string \<Rightarrow> string \<Rightarrow> repository
     \<Rightarrow> (exn + AssetEntity option) \<times> repository" where
  "registry_createUserAsset authUser assetInfo originalPath' mimeType' checksum' repo =
     (if list_ex (\<lambda>a. userId a = user_id authUser \<and> checksum a = checksum') (rows repo)
      then (Inl (QueryFailedError (Some ''UQ_userid_checksum'')), repo)
      else
        (let asset = \<lparr>asset_id = nextId repo, userId = user_id authUser,
                      checksum = checksum', originalPath = originalPath',
                      mimeType = mimeType'\<rparr>
         in (Inr (Some asset), \<lparr>rows = rows repo @ [asset], nextId = Suc (nextId repo)\<rparr>)))"

text \<open>
  Modelled from the spec: \<^verbatim>\<open>AssetService.getAssetByChecksum\<close> is missing from the
  sources. It reads back the existing Asset for (owner, digest).
\<close>

definition registry_getAssetByChecksum ::
  "string \<Rightarrow> string \<Rightarrow> repository \<Rightarrow> exn + AssetEntity option" where
  "registry_getAssetByChecksum uid checksum' repo =
     Inr (find (\<lambda>a. userId a = uid \<and> checksum a = checksum') (rows repo))"

text \<open>
  Modelled from the spec: the bull queue is an external library. The Work Queue's
  enqueue with a job key that already exists is a no-op (idempotent submission);
  otherwise the job joins the queue.
\<close>

definition workQueue_add :: "UploadedJob \<Rightarrow> UploadedJob list \<Rightarrow> exn + UploadedJob list" where
  "workQueue_add job q =
     (if list_ex (\<lambda>j. jobId j = jobId job) q then Inr q else Inr (q @ [job]))"

text \<open>
  Modelled from the spec: \<^verbatim>\<open>AssetService.getAssetById\<close> is missing from the sources
  and the specification does not describe it; it is taken as the lookup of a row by its
  identifier.
\<close>

definition registry_getAssetById ::
  "AuthUserDto \<Rightarrow> asset_id \<Rightarrow> repository \<Rightarrow> exn + AssetResponseDto option" where
  "registry_getAssetById authUser i repo = Inr (find (\<lambda>a. asset_id a = i) (rows repo))"

text \<open>
  Modelled from the spec: \<^verbatim>\<open>AssetService.deleteAssetById\<close> is missing from the
  sources. The delete entry point answers one status per identifier: NotFound when no
  asset has it, Forbidden when the asset belongs to somebody else, Success when the
  caller's asset was deleted.
\<close>

fun registry_deleteRows ::
  "string \<Rightarrow> asset_id list \<Rightarrow> AssetEntity list
     \<Rightarrow> DeleteAssetResponseDto list \<times> AssetEntity list" where
  "registry_deleteRows uid [] rs = ([], rs)"
| "registry_deleteRows uid (i # is) rs =
     (case find (\<lambda>a. asset_id a = i) rs of
        None \<Rightarrow>
          (let (res, rs') = registry_deleteRows uid is rs
           in (\<lparr>res_id = i, status = NOT_FOUND\<rparr> # res, rs'))
      | Some a \<Rightarrow>
          if userId a = uid then
            (let (res, rs') = registry_deleteRows uid is (filter (\<lambda>b. asset_id b \<noteq> i) rs)
             in (\<lparr>res_id = i, status = SUCCESS\<rparr> # res, rs'))
          else
            (let (res, rs') = registry_deleteRows uid is rs
             in (\<lparr>res_id = i, status = FORBIDDEN\<rparr> # res, rs')))"

definition registry_deleteAssetById ::
  "AuthUserDto \<Rightarrow> DeleteAssetDto \<Rightarrow> repository
     \<Rightarrow> (exn + DeleteAssetResponseDto list) \<times> repository" where
  "registry_deleteAssetById authUser assetIds repo =
     (let (res, rs') = registry_deleteRows (user_id authUser) (ids assetIds) (rows repo)
      in (Inr res, repo\<lparr>rows := rs'\<rparr>))"

text \<open>The controller wired to the modelled collaborators.\<close>

definition modelled_deps :: "(string \<Rightarrow> string) \<Rightarrow> (string \<Rightarrow> string option) \<Rightarrow> deps" where
  "modelled_deps hash disk =
     \<lparr>calculateChecksum = hasher_calculateChecksum hash disk,
      createUserAsset = registry_createUserAsset,
      getAssetByChecksum = registry_getAssetByChecksum,
      getAssetById = registry_getAssetById,
      deleteAssetById = registry_deleteAssetById,
      add = workQueue_add,
      assetUploadedProcessorName = ''asset-uploaded''\<rparr>"

text \<open>An empty installation.\<close>

definition empty_world :: world where
  "empty_world =
     \<lparr>assetRepository = \<lparr>rows = [], nextId = 0\<rparr>,
      assetUploadedQueue = [],
      backgroundTaskQueue = [],
      errorLog = [],
      registryCalls = []\<rparr>"

text \<open>
  Invariants of the asset table: the pair (owner, checksum) is unique among the rows, and
  identifiers are unique and below the next free one.
\<close>

definition registry_unique :: "repository \<Rightarrow> bool" where
  "registry_unique repo = distinct (map (\<lambda>a. (userId a, checksum a)) (rows repo))"

definition registry_ids_ok :: "repository \<Rightarrow> bool" where
  "registry_ids_ok repo =
     (distinct (map asset_id (rows repo))
      \<and> list_all (\<lambda>a. asset_id a < nextId repo) (rows repo))"

section \<open>Sample inputs\<close>

text \<open>
  Two users, transient files holding the same bytes, a toy digest, and the states and
  collaborators used to run the controller on concrete inputs.
\<close>

definition alice :: AuthUserDto where
  "alice = \<lparr>user_id = ''u1'', email = ''alice@example.org''\<rparr>"

definition bob :: AuthUserDto where
  "bob = \<lparr>user_id = ''u2'', email = ''bob@example.org''\<rparr>"

definition upload1 :: MulterFile where
  "upload1 = \<lparr>path = ''upload/tmp-1'', mimetype = ''image/jpeg'', originalname = ''a.jpg''\<rparr>"

definition upload2 :: MulterFile where
  "upload2 = \<lparr>path = ''upload/tmp-2'', mimetype = ''image/jpeg'', originalname = ''b.jpg''\<rparr>"

text \<open>A file that the hasher cannot read: nothing is stored under its path.\<close>

definition unreadable_upload :: MulterFile where
  "unreadable_upload =
     \<lparr>path = ''upload/tmp-9'', mimetype = ''image/jpeg'', originalname = ''c.jpg''\<rparr>"

definition no_info :: CreateAssetDto where
  "no_info = \<lparr>deviceId = None, createdAt = None\<rparr>"

definition toy_hash :: "string \<Rightarrow> string" where
  "toy_hash bytes = (if bytes = ''ABC'' then ''d1'' else ''d0'')"

definition toy_disk :: "string \<Rightarrow> string option" where
  "toy_disk p = (if p = ''upload/tmp-1'' \<or> p = ''upload/tmp-2'' then Some ''ABC'' else None)"

definition toy_deps :: deps where
  "toy_deps = modelled_deps toy_hash toy_disk"

text \<open>An asset service whose \<^verbatim>\<open>createUserAsset\<close> resolves to nothing.\<close>

definition falsy_deps :: deps where
  "falsy_deps = toy_deps\<lparr>createUserAsset := \<lambda>u i p m c repo. (Inr None, repo)\<rparr>"


text \<open>The state after \<open>alice\<close> has uploaded \<open>upload1\<close> to an empty installation.\<close>

definition first_asset :: AssetEntity where
  "first_asset = \<lparr>asset_id = 0, userId = ''u1'', checksum = ''d1'',
                   originalPath = ''upload/tmp-1'', mimeType = ''image/jpeg''\<rparr>"

definition first_job :: UploadedJob where
  "first_job = \<lparr>job_name = ''asset-uploaded'', job_asset = first_asset,
                 fileName = ''a.jpg'', jobId = 0\<rparr>"

definition after_first_upload :: world where
  "after_first_upload =
     \<lparr>assetRepository = \<lparr>rows = [first_asset], nextId = 1\<rparr>,
      assetUploadedQueue = [first_job],
      backgroundTaskQueue = [],
      errorLog = [],
      registryCalls = [CreateUserAsset ''u1'' ''d1'' ''upload/tmp-1'']\<rparr>"

lemmas toy_defs =
  alice_def bob_def upload1_def upload2_def no_info_def toy_hash_def toy_disk_def
  toy_deps_def modelled_deps_def empty_world_def
  hasher_calculateChecksum_def registry_createUserAsset_def
  registry_getAssetByChecksum_def workQueue_add_def

section \<open>Auxiliary facts\<close>

subsection \<open>Lists\<close>

lemma find_in_prefix: "find P xs = Some a \<Longrightarrow> find P (xs @ ys) = Some a"
  by (induction xs) auto

lemma find_in_suffix: "\<not> list_ex P xs \<Longrightarrow> find P (xs @ ys) = find P ys"
  by (induction xs) auto

lemma find_list_ex: "list_ex P xs \<Longrightarrow> \<exists>a. find P xs = Some a"
  by (induction xs) auto

lemma find_holds: "find P xs = Some a \<Longrightarrow> a \<in> set xs \<and> P a"
  by (induction xs) (auto split: if_splits)

lemma filter_none: "\<not> list_ex P xs \<Longrightarrow> filter P xs = []"
  by (induction xs) auto

lemma filter_unique_key:
  "distinct (map f xs) \<Longrightarrow> find (\<lambda>a. f a = k) xs = Some a \<Longrightarrow> filter (\<lambda>a. f a = k) xs = [a]"
proof (induction xs)
  case Nil
  then show ?case by simp
next
  case (Cons x xs)
  show ?case
  proof (cases "f x = k")
    case True
    then have "a = x" using Cons.prems(2) by simp
    moreover have "\<forall>y \<in> set xs. f y \<noteq> k"
      using Cons.prems(1) True by (auto simp add: image_iff)
    then have "filter (\<lambda>a. f a = k) xs = []" by (simp add: filter_empty_conv)
    ultimately show ?thesis using True by simp
  next
    case False
    then show ?thesis using Cons by simp
  qed
qed

lemma distinct_ids_differ:
  assumes "distinct (map f xs)" and "x \<in> set xs" and "y \<in> set xs" and "x \<noteq> y"
  shows "f x \<noteq> f y"
  using assms by (meson distinct_map inj_onD)

subsection \<open>The modelled queue\<close>

lemma workQueue_add_total: "\<exists>q'. workQueue_add job q = Inr q'"
  by (simp add: workQueue_add_def)

lemma workQueue_add_keyed:
  "workQueue_add job q = Inr q' \<Longrightarrow> list_ex (\<lambda>j. jobId j = jobId job) q'"
  by (auto simp add: workQueue_add_def list_ex_iff split: if_splits)

lemma workQueue_add_again:
  "workQueue_add job q = Inr q' \<Longrightarrow> jobId job' = jobId job \<Longrightarrow> workQueue_add job' q' = Inr q'"
  by (auto simp add: workQueue_add_def list_ex_iff split: if_splits)

lemma workQueue_add_distinct:
  assumes "workQueue_add job q = Inr q'" and "distinct (map jobId q)"
  shows "distinct (map jobId q')"
proof (cases "list_ex (\<lambda>j. jobId j = jobId job) q")
  case True
  then show ?thesis using assms by (simp add: workQueue_add_def)
next
  case False
  then have "jobId job \<notin> jobId ` set q" by (auto simp add: list_ex_iff)
  moreover have "q' = q @ [job]" using False assms by (simp add: workQueue_add_def)
  ultimately show ?thesis using assms(2) by simp
qed

subsection \<open>The modelled asset table\<close>

lemma registry_unique_filter:
  assumes "registry_unique repo"
    and "find (\<lambda>a. userId a = uid \<and> checksum a = digest) (rows repo) = Some a"
  shows "filter (\<lambda>a. userId a = uid \<and> checksum a = digest) (rows repo) = [a]"
  using filter_unique_key [of "\<lambda>a. (userId a, checksum a)" "rows repo" "(uid, digest)" a] assms
  by (simp add: registry_unique_def)

lemma registry_ids_ok_insert:
  assumes "registry_ids_ok repo" and "asset_id a = nextId repo"
  shows "registry_ids_ok \<lparr>rows = rows repo @ [a], nextId = Suc (nextId repo)\<rparr>"
proof -
  have below: "\<forall>b \<in> set (rows repo). asset_id b < nextId repo"
    using assms(1) by (simp add: registry_ids_ok_def list_all_iff)
  then have "asset_id a \<notin> asset_id ` set (rows repo)"
    using assms(2) by auto
  moreover have "\<forall>b \<in> set (rows repo). asset_id b < Suc (nextId repo)"
    using below by auto
  ultimately show ?thesis
    using assms by (simp add: registry_ids_ok_def list_all_iff)
qed

text \<open>What one upload can do to the asset table: nothing, or append one row.\<close>

lemma step_rows_subset:
  assumes "r2 = (if c then r1 else \<lparr>rows = rows r1 @ [a], nextId = n\<rparr>)"
  shows "set (rows r1) \<subseteq> set (rows r2)"
  using assms by auto

lemma step_ids_ok:
  assumes "registry_ids_ok r1"
    and "r2 = (if c then r1 else \<lparr>rows = rows r1 @ [a], nextId = Suc (nextId r1)\<rparr>)"
    and "c \<or> asset_id a = nextId r1"
  shows "registry_ids_ok r2"
  using assms registry_ids_ok_insert [of r1 a] by (cases c) simp_all

lemma step_find:
  assumes "find P (rows r1) = Some x"
    and "r2 = (if c then r1 else \<lparr>rows = rows r1 @ [a], nextId = n\<rparr>)"
  shows "find P (rows r2) = Some x"
  using assms find_in_prefix [of P "rows r1" x "[a]"] by (cases c) simp_all

lemma step_list_ex:
  assumes "\<not> P a"
    and "r2 = (if c then r1 else \<lparr>rows = rows r1 @ [a], nextId = n\<rparr>)"
  shows "list_ex P (rows r2) = list_ex P (rows r1)"
  using assms by (cases c) simp_all

subsection \<open>Paths through the controller\<close>

text \<open>An exception of the hasher leaves \<^verbatim>\<open>uploadFile\<close> with nothing else done.\<close>

lemma uploadFile_checksum_failure:
  "calculateChecksum d (path file) = Inl e \<Longrightarrow>
     uploadFile d authUser file assetInfo w = (Inl e, w)"
  by (simp add: uploadFile_def)

text \<open>Every exception raised once the checksum is known goes through the catch block.\<close>

lemma uploadFile_failure_after_checksum:
  assumes "calculateChecksum d (path file) = Inr c"
    and "fst (uploadFile d authUser file assetInfo w) = Inl e"
  shows "[Simulated (path file)] \<in>
           set (backgroundTaskQueue (snd (uploadFile d authUser file assetInfo w)))"
  using assms
  by (auto simp add: uploadFile_def uploadFile_catch_def deleteFileOnDisk_def Let_def
      split: sum.splits option.splits prod.splits if_splits)

text \<open>The path on which a new asset is created and its job accepted.\<close>

lemma uploadFile_new_queue:
  assumes "calculateChecksum d (path file) = Inr c"
    and "createUserAsset d authUser assetInfo (path file) (mimetype file) c
           (assetRepository w) = (Inr (Some savedAsset), repo)"
    and "add d \<lparr>job_name = assetUploadedProcessorName d, job_asset = savedAsset,
                fileName = originalname file, jobId = asset_id savedAsset\<rparr>
           (assetUploadedQueue w) = Inr q'"
  shows "uploadFile d authUser file assetInfo w =
           (Inr \<lparr>statusCode = 201, response_id = asset_id savedAsset\<rparr>,
            w\<lparr>registryCalls := registryCalls w @
                  [CreateUserAsset (user_id authUser) c (path file)],
              assetRepository := repo, assetUploadedQueue := q'\<rparr>)"
  using assms by (simp add: uploadFile_def)

text \<open>
  \<^verbatim>\<open>deleteAsset\<close> hands every asset that \<^verbatim>\<open>getAssetById\<close> found to
  \<^verbatim>\<open>deleteFileOnDisk\<close>, whatever statuses \<^verbatim>\<open>deleteAssetById\<close> reported.
\<close>

lemma deleteAsset_schedules_all_found:
  assumes "collectAssets d authUser (ids assetIds) (assetRepository w) [] = Inr found"
    and "deleteAssetById d authUser assetIds (assetRepository w) = (Inr result, repo)"
  shows "deleteAsset d authUser assetIds w =
           (Inr result,
            w\<lparr>assetRepository := repo,
              backgroundTaskQueue := backgroundTaskQueue w @ [map OfAsset found]\<rparr>)"
  using assms by (simp add: deleteAsset_def deleteFileOnDisk_def)

subsection \<open>Uploads against the modelled collaborators\<close>

lemma modelled_upload_new:
  assumes "disk (path f) = Some B"
    and "\<not> list_ex (\<lambda>a. userId a = user_id u \<and> checksum a = hash B) (rows (assetRepository w))"
  shows "fst (uploadFile (modelled_deps hash disk) u f i w) =
           Inr \<lparr>statusCode = 201, response_id = nextId (assetRepository w)\<rparr>
       \<and> assetRepository (snd (uploadFile (modelled_deps hash disk) u f i w)) =
           \<lparr>rows = rows (assetRepository w) @
                    [\<lparr>asset_id = nextId (assetRepository w), userId = user_id u,
                      checksum = hash B, originalPath = path f, mimeType = mimetype f\<rparr>],
            nextId = Suc (nextId (assetRepository w))\<rparr>"
  using assms
  by (simp add: uploadFile_def modelled_deps_def hasher_calculateChecksum_def
      registry_createUserAsset_def workQueue_add_def Let_def)

lemma modelled_upload_dup:
  assumes "disk (path f) = Some B"
    and "find (\<lambda>a. userId a = user_id u \<and> checksum a = hash B) (rows (assetRepository w)) = Some e"
  shows "fst (uploadFile (modelled_deps hash disk) u f i w) =
           Inr \<lparr>statusCode = 200, response_id = asset_id e\<rparr>
       \<and> assetRepository (snd (uploadFile (modelled_deps hash disk) u f i w)) = assetRepository w"
proof -
  have "list_ex (\<lambda>a. userId a = user_id u \<and> checksum a = hash B) (rows (assetRepository w))"
    using find_holds [OF assms(2)] by (auto simp add: list_ex_iff)
  then show ?thesis
    using assms
    by (simp add: uploadFile_def uploadFile_catch_def deleteFileOnDisk_def modelled_deps_def
        hasher_calculateChecksum_def registry_createUserAsset_def
        registry_getAssetByChecksum_def Let_def)
qed

text \<open>
  Both cases at once: the answer names an asset \<open>a\<close> that the table afterwards holds for
  (owner, digest); the table is unchanged if it held one before, and has gained \<open>a\<close>
  under the next free identifier otherwise.
\<close>

lemma modelled_upload:
  assumes "disk (path f) = Some B"
  shows "\<exists>a. fst (uploadFile (modelled_deps hash disk) u f i w) =
               Inr \<lparr>statusCode = (if list_ex (\<lambda>a. userId a = user_id u \<and> checksum a = hash B)
                                        (rows (assetRepository w)) then 200 else 201),
                    response_id = asset_id a\<rparr>
           \<and> find (\<lambda>a. userId a = user_id u \<and> checksum a = hash B)
                (rows (assetRepository (snd (uploadFile (modelled_deps hash disk) u f i w)))) = Some a
           \<and> assetRepository (snd (uploadFile (modelled_deps hash disk) u f i w)) =
               (if list_ex (\<lambda>a. userId a = user_id u \<and> checksum a = hash B)
                     (rows (assetRepository w))
                then assetRepository w
                else \<lparr>rows = rows (assetRepository w) @ [a],
                      nextId = Suc (nextId (assetRepository w))\<rparr>)
           \<and> (list_ex (\<lambda>a. userId a = user_id u \<and> checksum a = hash B)
                     (rows (assetRepository w)) \<or> asset_id a = nextId (assetRepository w))"
    (is "\<exists>a. ?R a")
proof (cases "list_ex (\<lambda>a. userId a = user_id u \<and> checksum a = hash B) (rows (assetRepository w))")
  case True
  then obtain e where e: "find (\<lambda>a. userId a = user_id u \<and> checksum a = hash B)
                            (rows (assetRepository w)) = Some e"
    using find_list_ex by blast
  have "?R e"
    using modelled_upload_dup [where hash = hash and B = B and disk = disk, OF assms e, of i] True e
    by simp
  then show ?thesis ..
next
  case False
  let ?a = "\<lparr>asset_id = nextId (assetRepository w), userId = user_id u,
              checksum = hash B, originalPath = path f, mimeType = mimetype f\<rparr>"
  have "?R ?a"
    using modelled_upload_new [where hash = hash and B = B and disk = disk, OF assms False, of i] False
    by (simp add: find_in_suffix)
  then show ?thesis ..
qed

subsection \<open>Two sample runs\<close>

lemma first_upload:
  "uploadFile toy_deps alice upload1 no_info empty_world =
     (Inr \<lparr>statusCode = 201, response_id = 0\<rparr>, after_first_upload)"
  by (simp add: uploadFile_def Let_def toy_defs after_first_upload_def first_job_def
      first_asset_def)

lemma second_upload:
  "uploadFile toy_deps alice upload2 no_info after_first_upload =
     (Inr \<lparr>statusCode = 200, response_id = 0\<rparr>,
      after_first_upload
        \<lparr>backgroundTaskQueue := [[Simulated ''upload/tmp-2'']],
         registryCalls := [CreateUserAsset ''u1'' ''d1'' ''upload/tmp-1'',
                           CreateUserAsset ''u1'' ''d1'' ''upload/tmp-2'',
                           GetAssetByChecksum ''u1'' ''d1'']\<rparr>)"
  by (simp add: uploadFile_def uploadFile_catch_def deleteFileOnDisk_def Let_def toy_defs
      after_first_upload_def first_job_def first_asset_def)

section \<open>The claims\<close>

text \<open>
  C1. Uploading the same bytes \<open>B\<close> twice as the same owner, into an asset table
  that respects the uniqueness of (owner, checksum), leaves exactly one asset whose owner
  is that owner and whose checksum is \<open>hash B\<close>. Both uploads succeed; the second one
  answers with the identifier the first one answered with, and reports the duplicate
  through status 200 instead of raising. The asset table, the hasher and the queue are
  the modelled ones.
\<close>

theorem upload_twice_one_asset:
  assumes b1: "disk (path f1) = Some B" and b2: "disk (path f2) = Some B"
    and uq: "registry_unique (assetRepository w)"
  shows "\<exists>r1 r2 a.
           fst (uploadFile (modelled_deps hash disk) owner f1 i1 w) = Inr r1
         \<and> fst (uploadFile (modelled_deps hash disk) owner f2 i2
                 (snd (uploadFile (modelled_deps hash disk) owner f1 i1 w))) = Inr r2
         \<and> response_id r2 = response_id r1
         \<and> isDuplicate r2
         \<and> filter (\<lambda>a. userId a = user_id owner \<and> checksum a = hash B)
              (rows (assetRepository
                 (snd (uploadFile (modelled_deps hash disk) owner f2 i2
                    (snd (uploadFile (modelled_deps hash disk) owner f1 i1 w)))))) = [a]
         \<and> asset_id a = response_id r1"
proof -
  let ?D = "modelled_deps hash disk"
  let ?P = "\<lambda>a. userId a = user_id owner \<and> checksum a = hash B"
  let ?w1 = "snd (uploadFile ?D owner f1 i1 w)"
  let ?w2 = "snd (uploadFile ?D owner f2 i2 ?w1)"
  obtain a where
    r1: "fst (uploadFile ?D owner f1 i1 w) =
           Inr \<lparr>statusCode = (if list_ex ?P (rows (assetRepository w)) then 200 else 201),
                response_id = asset_id a\<rparr>" and
    found: "find ?P (rows (assetRepository ?w1)) = Some a" and
    repo1: "assetRepository ?w1 =
              (if list_ex ?P (rows (assetRepository w)) then assetRepository w
               else \<lparr>rows = rows (assetRepository w) @ [a],
                     nextId = Suc (nextId (assetRepository w))\<rparr>)"
    using modelled_upload [where hash = hash and B = B and disk = disk, OF b1, of owner i1 w]
    by blast
  have second:
    "fst (uploadFile ?D owner f2 i2 ?w1) = Inr \<lparr>statusCode = 200, response_id = asset_id a\<rparr>
     \<and> assetRepository ?w2 = assetRepository ?w1"
    using modelled_upload_dup [where hash = hash and B = B and disk = disk, OF b2 found, of i2] .
  have one: "filter ?P (rows (assetRepository ?w1)) = [a]"
  proof (cases "list_ex ?P (rows (assetRepository w))")
    case True
    then have "assetRepository ?w1 = assetRepository w" using repo1 by simp
    then show ?thesis using registry_unique_filter [OF uq] found by simp
  next
    case False
    then have "rows (assetRepository ?w1) = rows (assetRepository w) @ [a]"
      using repo1 by simp
    moreover have "?P a" using find_holds [OF found] by simp
    ultimately show ?thesis using filter_none [OF False] by simp
  qed
  show ?thesis
    using r1 second one by (simp add: isDuplicate_def)
qed

theorem upload_twice_one_asset_witness:
  "\<exists>r1 r2 a.
     fst (uploadFile (modelled_deps toy_hash toy_disk) alice upload1 no_info empty_world) = Inr r1
   \<and> fst (uploadFile (modelled_deps toy_hash toy_disk) alice upload2 no_info
           (snd (uploadFile (modelled_deps toy_hash toy_disk) alice upload1 no_info
                   empty_world))) = Inr r2
   \<and> response_id r2 = response_id r1
   \<and> isDuplicate r2
   \<and> filter (\<lambda>a. userId a = user_id alice \<and> checksum a = toy_hash ''ABC'')
        (rows (assetRepository
           (snd (uploadFile (modelled_deps toy_hash toy_disk) alice upload2 no_info
              (snd (uploadFile (modelled_deps toy_hash toy_disk) alice upload1 no_info
                      empty_world)))))) = [a]
   \<and> asset_id a = response_id r1"
  by (rule upload_twice_one_asset)
     (simp_all add: registry_unique_def toy_disk_def upload1_def upload2_def empty_world_def)

text \<open>
  C2. Once the checksum is known, the first call on the asset table is the insert
  (\<^verbatim>\<open>createUserAsset\<close>), with no lookup before it. The read-back
  (\<^verbatim>\<open>getAssetByChecksum\<close> for the caller's id and the checksum) follows exactly when
  the insert failed with the uniqueness violation \<^verbatim>\<open>UQ_userid_checksum\<close>; the asset
  it returns is answered as a duplicate (status 200) rather than as an error, and an
  upload is answered as a duplicate only in that case. Any other failure of the insert
  makes the upload fail with \<^verbatim>\<open>BadRequestException\<close>. The queue is assumed not to
  raise the store's uniqueness violation.
\<close>

theorem uploadFile_insert_then_fallback:
  assumes ck: "calculateChecksum d (path file) = Inr c"
    and cr: "createUserAsset d authUser assetInfo (path file) (mimetype file) c
               (assetRepository w) = (res, repo)"
    and q: "\<forall>job jobs e. add d job jobs = Inl e \<longrightarrow> \<not> is_checksum_conflict e"
  shows "registryCalls (snd (uploadFile d authUser file assetInfo w)) =
           registryCalls w @ CreateUserAsset (user_id authUser) c (path file) #
             (if (\<exists>e. res = Inl e \<and> is_checksum_conflict e)
              then [GetAssetByChecksum (user_id authUser) c] else [])
       \<and> (\<forall>e a. res = Inl e \<and> is_checksum_conflict e
              \<and> getAssetByChecksum d (user_id authUser) c repo = Inr (Some a)
            \<longrightarrow> fst (uploadFile d authUser file assetInfo w) =
                  Inr \<lparr>statusCode = 200, response_id = asset_id a\<rparr>)
       \<and> (\<forall>r. fst (uploadFile d authUser file assetInfo w) = Inr r \<and> isDuplicate r
            \<longrightarrow> (\<exists>e. res = Inl e \<and> is_checksum_conflict e))
       \<and> (\<forall>e. res = Inl e \<and> \<not> is_checksum_conflict e
            \<longrightarrow> fst (uploadFile d authUser file assetInfo w) =
                  Inl (BadRequestException ''Error uploading file'' (Some e)))"
  using assms
  by (auto simp add: uploadFile_def uploadFile_catch_def deleteFileOnDisk_def isDuplicate_def
      Let_def split: sum.splits option.splits prod.splits if_splits)

theorem uploadFile_insert_then_fallback_witness:
  "registryCalls (snd (uploadFile toy_deps alice upload2 no_info after_first_upload)) =
     [CreateUserAsset ''u1'' ''d1'' ''upload/tmp-1'',
      CreateUserAsset ''u1'' ''d1'' ''upload/tmp-2'',
      GetAssetByChecksum ''u1'' ''d1'']
   \<and> fst (uploadFile toy_deps alice upload2 no_info after_first_upload) =
       Inr \<lparr>statusCode = 200, response_id = 0\<rparr>"
  using uploadFile_insert_then_fallback
          [of toy_deps upload2 "''d1''" alice no_info after_first_upload
              "Inl (QueryFailedError (Some ''UQ_userid_checksum''))"
              "\<lparr>rows = [first_asset], nextId = 1\<rparr>"]
  by (simp add: Let_def toy_defs after_first_upload_def first_asset_def split: if_splits)

text \<open>
  C3. The claim is that the transient path is handed to cleanup on every outcome that
  does not promote the file, a failure of the content hasher included. The checksum is
  computed before the \<^verbatim>\<open>try\<close> block: when the hasher cannot read the file, the
  upload fails with the hasher's exception and nothing is put on the background task
  queue, although every failure raised inside the \<^verbatim>\<open>try\<close> block is cleaned up
  (\<open>uploadFile_failure_after_checksum\<close>).
\<close>

theorem uploadFile_unreadable_file_not_cleaned:
  "fst (uploadFile toy_deps alice unreadable_upload no_info empty_world) =
     Inl (Error ''I/O error'')
   \<and> backgroundTaskQueue
       (snd (uploadFile toy_deps alice unreadable_upload no_info empty_world)) = []"
  by (simp add: uploadFile_def unreadable_upload_def toy_deps_def modelled_deps_def
      hasher_calculateChecksum_def toy_disk_def empty_world_def)

text \<open>
  C4 (amended). When an upload creates a new asset, exactly one job joins the queue of
  uploaded assets: the job named \<^verbatim>\<open>assetUploadedProcessorName\<close>, carrying the new
  asset and the original file name, keyed by \<^verbatim>\<open>jobId\<close> = the new asset's identifier;
  the upload answers with that identifier and status 201. (The claim speaks of three
  jobs, one per processor kind.)
\<close>

theorem uploadFile_new_asset_one_job:
  assumes "calculateChecksum d (path file) = Inr c"
    and "createUserAsset d authUser assetInfo (path file) (mimetype file) c
           (assetRepository w) = (Inr (Some savedAsset), repo)"
    and "add d = workQueue_add"
    and "\<not> list_ex (\<lambda>j. jobId j = asset_id savedAsset) (assetUploadedQueue w)"
  shows "fst (uploadFile d authUser file assetInfo w) =
           Inr \<lparr>statusCode = 201, response_id = asset_id savedAsset\<rparr>
       \<and> assetUploadedQueue (snd (uploadFile d authUser file assetInfo w)) =
           assetUploadedQueue w @
             [\<lparr>job_name = assetUploadedProcessorName d, job_asset = savedAsset,
               fileName = originalname file, jobId = asset_id savedAsset\<rparr>]"
  using assms
  by (simp add: uploadFile_def workQueue_add_def)

theorem uploadFile_new_asset_one_job_witness:
  "fst (uploadFile toy_deps alice upload1 no_info empty_world) =
     Inr \<lparr>statusCode = 201, response_id = 0\<rparr>
   \<and> assetUploadedQueue (snd (uploadFile toy_deps alice upload1 no_info empty_world)) =
       [\<lparr>job_name = ''asset-uploaded'', job_asset = first_asset,
         fileName = ''a.jpg'', jobId = 0\<rparr>]"
  using uploadFile_new_asset_one_job
          [of toy_deps upload1 "''d1''" alice no_info empty_world first_asset
              "\<lparr>rows = [first_asset], nextId = 1\<rparr>"]
  by (simp add: Let_def toy_defs first_asset_def)

text \<open>The first upload of the sample run creates asset 0 and leaves one job, not three.\<close>

theorem uploadFile_three_jobs_counterexample:
  "fst (uploadFile toy_deps alice upload1 no_info empty_world) =
     Inr \<lparr>statusCode = 201, response_id = 0\<rparr>
   \<and> length (assetUploadedQueue
        (snd (uploadFile toy_deps alice upload1 no_info empty_world))) \<noteq> 3"
  by (simp add: first_upload after_first_upload_def)




text \<open>
  C6. Whenever an upload is answered as a duplicate, the queue of uploaded assets is as it
  was before (no job was added), the transient path of the file has been put on the
  background task queue, and the identifier in the answer is that of the asset which
  \<^verbatim>\<open>getAssetByChecksum\<close> holds for the caller and the checksum of the file.
\<close>

theorem uploadFile_duplicate_no_jobs:
  assumes "fst (uploadFile d authUser file assetInfo w) = Inr r" and "isDuplicate r"
  shows "assetUploadedQueue (snd (uploadFile d authUser file assetInfo w)) =
           assetUploadedQueue w
       \<and> backgroundTaskQueue (snd (uploadFile d authUser file assetInfo w)) =
           backgroundTaskQueue w @ [[Simulated (path file)]]
       \<and> (\<exists>c e. calculateChecksum d (path file) = Inr c
              \<and> getAssetByChecksum d (user_id authUser) c
                   (assetRepository (snd (uploadFile d authUser file assetInfo w))) =
                 Inr (Some e)
              \<and> response_id r = asset_id e)"
  using assms
  by (auto simp add: uploadFile_def uploadFile_catch_def deleteFileOnDisk_def isDuplicate_def
      Let_def split: sum.splits option.splits prod.splits if_splits)

theorem uploadFile_duplicate_no_jobs_witness:
  "assetUploadedQueue (snd (uploadFile toy_deps alice upload2 no_info after_first_upload)) =
     [first_job]
   \<and> backgroundTaskQueue (snd (uploadFile toy_deps alice upload2 no_info after_first_upload)) =
       [[Simulated ''upload/tmp-2'']]
   \<and> fst (uploadFile toy_deps alice upload2 no_info after_first_upload) =
       Inr \<lparr>statusCode = 200, response_id = 0\<rparr>"
  using uploadFile_duplicate_no_jobs
          [of toy_deps alice upload2 no_info after_first_upload
              "\<lparr>statusCode = 200, response_id = 0\<rparr>"]
  unfolding second_upload
  by (simp add: isDuplicate_def after_first_upload_def upload2_def)

text \<open>
  C7. The claim is that a backing file is scheduled for removal only for assets whose
  deletion succeeded and that the caller owns. \<^verbatim>\<open>deleteAsset\<close> filters its list
  by status but drops the filtered array, so every asset that \<^verbatim>\<open>getAssetById\<close>
  found is handed to \<^verbatim>\<open>deleteFileOnDisk\<close>
  (\<open>deleteAsset_schedules_all_found\<close>). Here \<open>bob\<close> asks to delete the asset of
  \<open>alice\<close>: the status is \<open>FORBIDDEN\<close>, the row stays, and its file is scheduled
  for removal all the same.
\<close>

theorem deleteAsset_schedules_undeleted_asset:
  "fst (deleteAsset toy_deps bob \<lparr>ids = [0]\<rparr> after_first_upload) =
     Inr [\<lparr>res_id = 0, status = FORBIDDEN\<rparr>]
   \<and> rows (assetRepository (snd (deleteAsset toy_deps bob \<lparr>ids = [0]\<rparr> after_first_upload))) =
       [first_asset]
   \<and> backgroundTaskQueue (snd (deleteAsset toy_deps bob \<lparr>ids = [0]\<rparr> after_first_upload)) =
       [[OfAsset first_asset]]"
  by (simp add: deleteAsset_def deleteFileOnDisk_def toy_deps_def modelled_deps_def
      registry_getAssetById_def registry_deleteAssetById_def after_first_upload_def
      first_asset_def bob_def)

text \<open>
  C8. Two different owners upload the same bytes, one after the other, into an asset
  table with sound identifiers. Each upload succeeds and names an asset of its own
  uploader with the checksum of the bytes; the two identifiers differ; the lookup by
  (owner id, checksum) afterwards returns each owner's own asset; and the second owner's
  upload is answered as new (status 201) unless that owner already had the content,
  although the first owner's asset holds identical bytes. The asset table, the hasher
  and the queue are the modelled ones.
\<close>

theorem owners_are_isolated:
  assumes ne: "user_id o1 \<noteq> user_id o2"
    and b1: "disk (path f1) = Some B" and b2: "disk (path f2) = Some B"
    and ok: "registry_ids_ok (assetRepository w)"
  shows "\<exists>a1 a2 s1 s2.
           fst (uploadFile (modelled_deps hash disk) o1 f1 i1 w) =
             Inr \<lparr>statusCode = s1, response_id = asset_id a1\<rparr>
         \<and> fst (uploadFile (modelled_deps hash disk) o2 f2 i2
                 (snd (uploadFile (modelled_deps hash disk) o1 f1 i1 w))) =
             Inr \<lparr>statusCode = s2, response_id = asset_id a2\<rparr>
         \<and> asset_id a1 \<noteq> asset_id a2
         \<and> userId a1 = user_id o1 \<and> userId a2 = user_id o2
         \<and> checksum a1 = hash B \<and> checksum a2 = hash B
         \<and> registry_getAssetByChecksum (user_id o1) (hash B)
              (assetRepository
                 (snd (uploadFile (modelled_deps hash disk) o2 f2 i2
                    (snd (uploadFile (modelled_deps hash disk) o1 f1 i1 w))))) = Inr (Some a1)
         \<and> registry_getAssetByChecksum (user_id o2) (hash B)
              (assetRepository
                 (snd (uploadFile (modelled_deps hash disk) o2 f2 i2
                    (snd (uploadFile (modelled_deps hash disk) o1 f1 i1 w))))) = Inr (Some a2)
         \<and> (list_ex (\<lambda>a. userId a = user_id o2 \<and> checksum a = hash B)
               (rows (assetRepository w)) \<or> s2 = 201)"
proof -
  let ?D = "modelled_deps hash disk"
  let ?P1 = "\<lambda>a. userId a = user_id o1 \<and> checksum a = hash B"
  let ?P2 = "\<lambda>a. userId a = user_id o2 \<and> checksum a = hash B"
  let ?w1 = "snd (uploadFile ?D o1 f1 i1 w)"
  let ?w2 = "snd (uploadFile ?D o2 f2 i2 ?w1)"
  let ?r0 = "assetRepository w"
  let ?r1 = "assetRepository ?w1"
  let ?r2 = "assetRepository ?w2"
  obtain a1 where
    res1: "fst (uploadFile ?D o1 f1 i1 w) =
             Inr \<lparr>statusCode = (if list_ex ?P1 (rows ?r0) then 200 else 201),
                  response_id = asset_id a1\<rparr>" and
    found1: "find ?P1 (rows ?r1) = Some a1" and
    repo1: "?r1 = (if list_ex ?P1 (rows ?r0) then ?r0
                   else \<lparr>rows = rows ?r0 @ [a1], nextId = Suc (nextId ?r0)\<rparr>)" and
    fresh1: "list_ex ?P1 (rows ?r0) \<or> asset_id a1 = nextId ?r0"
    using modelled_upload [where hash = hash and B = B and disk = disk, OF b1, of o1 i1 w]
    by blast
  obtain a2 where
    res2: "fst (uploadFile ?D o2 f2 i2 ?w1) =
             Inr \<lparr>statusCode = (if list_ex ?P2 (rows ?r1) then 200 else 201),
                  response_id = asset_id a2\<rparr>" and
    found2: "find ?P2 (rows ?r2) = Some a2" and
    repo2: "?r2 = (if list_ex ?P2 (rows ?r1) then ?r1
                   else \<lparr>rows = rows ?r1 @ [a2], nextId = Suc (nextId ?r1)\<rparr>)" and
    fresh2: "list_ex ?P2 (rows ?r1) \<or> asset_id a2 = nextId ?r1"
    using modelled_upload [where hash = hash and B = B and disk = disk, OF b2, of o2 i2 ?w1]
    by blast
  have p1: "a1 \<in> set (rows ?r1) \<and> ?P1 a1" using find_holds [OF found1] .
  have p2: "a2 \<in> set (rows ?r2) \<and> ?P2 a2" using find_holds [OF found2] .
  have ok1: "registry_ids_ok ?r1"
    using step_ids_ok [OF ok repo1 fresh1] .
  have ok2: "registry_ids_ok ?r2"
    using step_ids_ok [OF ok1 repo2 fresh2] .
  have sub: "set (rows ?r1) \<subseteq> set (rows ?r2)"
    using step_rows_subset [OF repo2] .
  have "a1 \<noteq> a2" using p1 p2 ne by auto
  then have ids: "asset_id a1 \<noteq> asset_id a2"
    using distinct_ids_differ [of asset_id "rows ?r2" a1 a2] ok2 p1 p2 sub
    by (auto simp add: registry_ids_ok_def)
  have look1: "find ?P1 (rows ?r2) = Some a1"
    using step_find [OF found1 repo2] .
  have "\<not> ?P2 a1" using p1 ne by auto
  then have same: "list_ex ?P2 (rows ?r1) = list_ex ?P2 (rows ?r0)"
    using step_list_ex [of ?P2 a1, OF _ repo1] by blast
  show ?thesis
    apply (rule exI [of _ a1], rule exI [of _ a2])
    apply (rule exI [of _ "if list_ex ?P1 (rows ?r0) then 200 else 201"])
    apply (rule exI [of _ "if list_ex ?P2 (rows ?r1) then 200 else 201"])
    using res1 res2 ids p1 p2 look1 found2 same
    by (simp add: registry_getAssetByChecksum_def)
qed

theorem owners_are_isolated_witness:
  "\<exists>a1 a2 s1 s2.
     fst (uploadFile (modelled_deps toy_hash toy_disk) alice upload1 no_info empty_world) =
       Inr \<lparr>statusCode = s1, response_id = asset_id a1\<rparr>
   \<and> fst (uploadFile (modelled_deps toy_hash toy_disk) bob upload2 no_info
           (snd (uploadFile (modelled_deps toy_hash toy_disk) alice upload1 no_info
                   empty_world))) =
       Inr \<lparr>statusCode = s2, response_id = asset_id a2\<rparr>
   \<and> asset_id a1 \<noteq> asset_id a2
   \<and> userId a1 = user_id alice \<and> userId a2 = user_id bob
   \<and> checksum a1 = toy_hash ''ABC'' \<and> checksum a2 = toy_hash ''ABC''
   \<and> registry_getAssetByChecksum (user_id alice) (toy_hash ''ABC'')
        (assetRepository
           (snd (uploadFile (modelled_deps toy_hash toy_disk) bob upload2 no_info
              (snd (uploadFile (modelled_deps toy_hash toy_disk) alice upload1 no_info
                      empty_world))))) = Inr (Some a1)
   \<and> registry_getAssetByChecksum (user_id bob) (toy_hash ''ABC'')
        (assetRepository
           (snd (uploadFile (modelled_deps toy_hash toy_disk) bob upload2 no_info
              (snd (uploadFile (modelled_deps toy_hash toy_disk) alice upload1 no_info
                      empty_world))))) = Inr (Some a2)
   \<and> (list_ex (\<lambda>a. userId a = user_id bob \<and> checksum a = toy_hash ''ABC'')
         (rows (assetRepository empty_world)) \<or> s2 = 201)"
  by (rule owners_are_isolated)
     (simp_all add: registry_ids_ok_def toy_disk_def upload1_def upload2_def empty_world_def
        alice_def bob_def)

text \<open>
  C9. The job that an upload adds for a new asset is keyed by the asset's identifier
  (\<^verbatim>\<open>jobId: savedAsset.id\<close>): the queue after the upload is what submitting the job
  under that key returned. With the modelled queue, a job under that key is in the
  queue after the upload, submitting any job under the same key again leaves the queue
  as it is, and a queue whose keys were distinct keeps them distinct: no second job for
  the asset can arise.
\<close>

theorem uploadFile_job_key_idempotent:
  assumes ck: "calculateChecksum d (path file) = Inr c"
    and cr: "createUserAsset d authUser assetInfo (path file) (mimetype file) c
               (assetRepository w) = (Inr (Some savedAsset), repo)"
    and wq: "add d = workQueue_add"
    and key: "jobId job = asset_id savedAsset"
    and dist: "distinct (map jobId (assetUploadedQueue w))"
  shows "workQueue_add
           \<lparr>job_name = assetUploadedProcessorName d, job_asset = savedAsset,
            fileName = originalname file, jobId = asset_id savedAsset\<rparr>
           (assetUploadedQueue w) =
           Inr (assetUploadedQueue (snd (uploadFile d authUser file assetInfo w)))
       \<and> list_ex (\<lambda>j. jobId j = asset_id savedAsset)
           (assetUploadedQueue (snd (uploadFile d authUser file assetInfo w)))
       \<and> workQueue_add job (assetUploadedQueue (snd (uploadFile d authUser file assetInfo w))) =
           Inr (assetUploadedQueue (snd (uploadFile d authUser file assetInfo w)))
       \<and> distinct (map jobId (assetUploadedQueue (snd (uploadFile d authUser file assetInfo w))))"
proof -
  let ?J = "\<lparr>job_name = assetUploadedProcessorName d, job_asset = savedAsset,
             fileName = originalname file, jobId = asset_id savedAsset\<rparr>"
  obtain q' where q': "workQueue_add ?J (assetUploadedQueue w) = Inr q'"
    using workQueue_add_total by blast
  then have run: "assetUploadedQueue (snd (uploadFile d authUser file assetInfo w)) = q'"
    using uploadFile_new_queue [OF ck cr, of q'] wq by simp
  have "list_ex (\<lambda>j. jobId j = asset_id savedAsset) q'"
    using workQueue_add_keyed [OF q'] by simp
  moreover have "workQueue_add job q' = Inr q'"
    using workQueue_add_again [OF q', of job] key by simp
  moreover have "distinct (map jobId q')"
    using workQueue_add_distinct [OF q' dist] .
  ultimately show ?thesis
    using q' by (simp add: run)
qed

theorem uploadFile_job_key_idempotent_witness:
  "workQueue_add first_job [] =
     Inr (assetUploadedQueue (snd (uploadFile toy_deps alice upload1 no_info empty_world)))
   \<and> list_ex (\<lambda>j. jobId j = 0)
     (assetUploadedQueue (snd (uploadFile toy_deps alice upload1 no_info empty_world)))
   \<and> workQueue_add first_job
       (assetUploadedQueue (snd (uploadFile toy_deps alice upload1 no_info empty_world))) =
       Inr (assetUploadedQueue (snd (uploadFile toy_deps alice upload1 no_info empty_world)))
   \<and> distinct (map jobId
       (assetUploadedQueue (snd (uploadFile toy_deps alice upload1 no_info empty_world))))"
  using uploadFile_job_key_idempotent
          [of toy_deps upload1 "''d1''" alice no_info empty_world first_asset
              "\<lparr>rows = [first_asset], nextId = 1\<rparr>" first_job]
  by (simp add: Let_def toy_defs first_asset_def first_job_def)

text \<open>
  C10. If \<^verbatim>\<open>createUserAsset\<close> resolves to a falsy value without throwing, the upload
  is rejected with a \<^verbatim>\<open>BadRequestException\<close>, the transient path of the file is put
  on the background task queue (by the guard, and again by the catch block that its
  exception enters), and no job is added to the queue of uploaded assets.
\<close>

theorem uploadFile_asset_not_created:
  assumes "calculateChecksum d (path file) = Inr c"
    and "createUserAsset d authUser assetInfo (path file) (mimetype file) c
           (assetRepository w) = (Inr None, repo)"
  shows "fst (uploadFile d authUser file assetInfo w) =
           Inl (BadRequestException ''Error uploading file''
                  (Some (BadRequestException ''Asset not created'' None)))
       \<and> backgroundTaskQueue (snd (uploadFile d authUser file assetInfo w)) =
           backgroundTaskQueue w @ [[Simulated (path file)], [Simulated (path file)]]
       \<and> assetUploadedQueue (snd (uploadFile d authUser file assetInfo w)) =
           assetUploadedQueue w"
  using assms
  by (simp add: uploadFile_def uploadFile_catch_def deleteFileOnDisk_def)

theorem uploadFile_asset_not_created_witness:
  "fst (uploadFile falsy_deps alice upload1 no_info empty_world) =
     Inl (BadRequestException ''Error uploading file''
            (Some (BadRequestException ''Asset not created'' None)))
   \<and> backgroundTaskQueue (snd (uploadFile falsy_deps alice upload1 no_info empty_world)) =
       [[Simulated ''upload/tmp-1''], [Simulated ''upload/tmp-1'']]
   \<and> assetUploadedQueue (snd (uploadFile falsy_deps alice upload1 no_info empty_world)) = []"
  using uploadFile_asset_not_created
          [of falsy_deps upload1 "''d1''" alice no_info empty_world "assetRepository empty_world"]
  by (simp add: falsy_deps_def toy_defs)

end
